theory Spec2Isabelle
  imports Complex_Main
begin

section \<open>The hand pipeline: tracking one region of interest\<close>

text \<open>
  A shallow embedding of the class \<open>HandPipeline\<close> (the hand-pose pipeline
  that coordinates a palm detector and a landmark model).

  Numbers. JavaScript numbers are IEEE doubles; here they are real numbers, so
  rounding and overflow are idealised away. Where the code can leave the finite
  numbers on finite inputs, HOL's total functions are not what it computes:
  the quotient that computes the intersection over union decides which box is
  tracked, and is written out (\<open>js_divide\<close>: HOL has \<open>x / 0 = 0\<close>, JavaScript
  has not); \<open>Math.min()\<close> and \<open>Math.max()\<close> of no arguments have no equation
  (see \<open>Math_min\<close>); and \<open>transformRawCoords\<close> divides by the width and
  the height of the model's input, so a statement about the numbers it returns
  assumes that they are not zero.

  Points are the arrays \<open>[x, y]\<close> and \<open>[x, y, z]\<close> of the source, as
  pairs and triples.
\<close>

subsection \<open>Data\<close>

type_synonym point2 = "real \<times> real"
type_synonym point3 = "real \<times> real \<times> real"

text \<open>A 2x3 affine matrix: the two rows \<open>m[0]\<close>, \<open>m[1]\<close> that the pipeline reads.\<close>

type_synonym matrix = "point3 \<times> point3"

text \<open>
  A hand bounding box \<open>{ startPoint, endPoint, palmLandmarks }\<close>. The field
  \<open>palmLandmarks\<close> is optional in the source: the object built by
  \<open>calculateLandmarksBoundingBox\<close> has none, \<open>getBoxForHandLandmarks\<close>
  assigns it afterwards.
\<close>

record Box =
  startPoint :: point2
  endPoint :: point2
  palmLandmarks :: "point2 list option"

text \<open>
  The result of a JavaScript division of two finite numbers: finite when the divisor
  is not zero, otherwise an infinity or NaN.
\<close>

datatype number = Finite real | PosInfinity | NegInfinity | NaN

text \<open>
  \<open>a / b\<close> on finite doubles. In the one quotient of this file the divisor is
  \<open>boxArea + previousBoxArea - intersection\<close> and the dividend is
  \<open>intersection\<close>: when the divisor is zero and the dividend is not, the divisor
  is the difference of two equal non-zero numbers, which is \<open>+0\<close>, so the sign of
  the infinity is the sign of the dividend; zero by zero is NaN.
\<close>

definition js_divide :: "real \<Rightarrow> real \<Rightarrow> number" where
  "js_divide a b =
     (if b \<noteq> 0 then Finite (a / b)
      else if 0 < a then PosInfinity
      else if a < 0 then NegInfinity
      else NaN)"

text \<open>\<open>n > t\<close> for a finite \<open>t\<close>: every comparison with NaN is false.\<close>

fun js_greater :: "number \<Rightarrow> real \<Rightarrow> bool" where
  "js_greater (Finite x) t = (t < x)"
| "js_greater PosInfinity t = True"
| "js_greater NegInfinity t = False"
| "js_greater NaN t = False"

text \<open>
  The fields of a pipeline object. The two detectors (\<open>boundingBoxDetector\<close>,
  \<open>meshDetector\<close>) are external objects: what they answer for a frame is part
  of the frame (record \<open>image\<close> below), not of the pipeline.
\<close>

record HandPipeline =
  regionsOfInterest :: "Box list"
  runsWithoutHandDetector :: nat
  maxContinuousChecks :: real
  detectionConfidence :: real
  meshWidth :: real
  meshHeight :: real
  maxHandsNumber :: nat

text \<open>
  One video frame, as far as the pipeline's result and state depend on it: what
  \<open>boundingBoxDetector.estimateHandBounds(image)\<close> resolves to when it is called
  (\<open>None\<close> is \<open>null\<close>: no palm), and what \<open>meshDetector.predict\<close> answers
  for the crop of this frame when it is called: the confidence read by
  \<open>flag.dataSync()[0]\<close> and the key points after \<open>tf.reshape(keypoints, [-1, 3])\<close>,
  rows of three numbers. The tensor operations on the frame itself (rotation, crop,
  scaling to the unit range, disposal, the WebGL flag) touch only those external
  buffers.
\<close>

record image =
  estimateHandBounds :: "Box option"
  flagValue :: real
  rawCoords :: "point3 list"

record config =
  minConfidence :: real

record corners =
  topLeft :: point2
  bottomRight :: point2

record result =
  landmarks :: "point3 list"
  confidence :: real
  box' :: corners

text \<open>
  \<open>TypeError\<close>: reading a property or an element of \<open>undefined\<close>.
  A call of \<open>estimateHand\<close> either resolves to a result or to \<open>null\<close>
  (\<open>Returned None\<close>), or it throws.
\<close>

datatype error = TypeError

datatype outcome = Returned "result option" | Threw error

subsection \<open>Constants\<close>

definition UPDATE_REGION_OF_INTEREST_IOU_THRESHOLD :: real where
  "UPDATE_REGION_OF_INTEREST_IOU_THRESHOLD = 0.8"

definition PALM_BOX_SHIFT_VECTOR :: point2 where
  "PALM_BOX_SHIFT_VECTOR = (0, - 0.4)"

definition PALM_BOX_ENLARGE_FACTOR :: real where
  "PALM_BOX_ENLARGE_FACTOR = 3"

definition HAND_BOX_SHIFT_VECTOR :: point2 where
  "HAND_BOX_SHIFT_VECTOR = (0, - 0.1)"

definition HAND_BOX_ENLARGE_FACTOR :: real where
  "HAND_BOX_ENLARGE_FACTOR = 1.65"

definition PALM_LANDMARK_IDS :: "nat list" where
  "PALM_LANDMARK_IDS = [0, 5, 9, 13, 17, 1, 2]"

definition PALM_LANDMARKS_INDEX_OF_PALM_BASE :: nat where
  "PALM_LANDMARKS_INDEX_OF_PALM_BASE = 0"

definition PALM_LANDMARKS_INDEX_OF_MIDDLE_FINGER_BASE :: nat where
  "PALM_LANDMARKS_INDEX_OF_MIDDLE_FINGER_BASE = 2"

subsection \<open>The constructor\<close>

definition new_HandPipeline :: "real \<Rightarrow> real \<Rightarrow> real \<Rightarrow> real \<Rightarrow> HandPipeline" where
  "new_HandPipeline meshWidth0 meshHeight0 maxContinuousChecks0 detectionConfidence0 =
     \<lparr> regionsOfInterest = [],
       runsWithoutHandDetector = 0,
       maxContinuousChecks = maxContinuousChecks0,
       detectionConfidence = detectionConfidence0,
       meshWidth = meshWidth0,
       meshHeight = meshHeight0,
       maxHandsNumber = 1 \<rparr>"

subsection \<open>The region tracker\<close>

text \<open>
  Lines 247 to 258 of the source: the value of \<open>iou\<close> when there is a previous
  box. The last factor of \<open>previousBoxArea\<close> is \<open>previousBoxEndY - boxStartY\<close>, as
  written there, and the two extents of the intersection are not clipped at zero.
\<close>

definition iou :: "Box \<Rightarrow> Box \<Rightarrow> number" where
  "iou box previousBox =
     (let (boxStartX, boxStartY) = startPoint box;
          (boxEndX, boxEndY) = endPoint box;
          (previousBoxStartX, previousBoxStartY) = startPoint previousBox;
          (previousBoxEndX, previousBoxEndY) = endPoint previousBox;
          xStartMax = max boxStartX previousBoxStartX;
          yStartMax = max boxStartY previousBoxStartY;
          xEndMin = min boxEndX previousBoxEndX;
          yEndMin = min boxEndY previousBoxEndY;
          intersection = (xEndMin - xStartMax) * (yEndMin - yStartMax);
          boxArea = (boxEndX - boxStartX) * (boxEndY - boxStartY);
          previousBoxArea = (previousBoxEndX - previousBoxStartX) * (previousBoxEndY - boxStartY)
      in js_divide intersection (boxArea + previousBoxArea - intersection))"

text \<open>
  \<open>updateRegionsOfInterest(box, forceUpdate)\<close>. Without a previous box
  (\<open>regionsOfInterest[0]\<close> is \<open>undefined\<close>) \<open>iou\<close> stays \<open>0\<close>, the
  comparison with the threshold is false and the assignment to index 0 makes the
  empty array \<open>[box]\<close>. The second half of the guard,
  \<open>previousBox.startPoint != null\<close>, holds for every value of type \<open>Box\<close>.
\<close>

definition updateRegionsOfInterest :: "HandPipeline \<Rightarrow> Box \<Rightarrow> bool \<Rightarrow> HandPipeline" where
  "updateRegionsOfInterest this box forceUpdate =
     (if forceUpdate then this\<lparr>regionsOfInterest := [box]\<rparr>
      else
        (case regionsOfInterest this of
           [] \<Rightarrow> this\<lparr>regionsOfInterest := [box]\<rparr>
         | previousBox # others \<Rightarrow>
             this\<lparr>regionsOfInterest :=
               (if js_greater (iou box previousBox) UPDATE_REGION_OF_INTEREST_IOU_THRESHOLD
                then previousBox else box) # others\<rparr>))"

definition shouldUpdateRegionsOfInterest :: "HandPipeline \<Rightarrow> bool" where
  "shouldUpdateRegionsOfInterest this =
     (let roisCount = length (regionsOfInterest this)
      in roisCount \<noteq> maxHandsNumber this
         \<or> maxContinuousChecks this \<le> real (runsWithoutHandDetector this))"

subsection \<open>The modules \<open>./box\<close> and \<open>./util\<close>\<close>

text \<open>
  The pipeline calls \<open>bounding.*\<close> (module \<open>./box\<close>) and \<open>util.*\<close>
  (module \<open>./util\<close>); neither module is among the sources. The functions it
  calls are written here from their description.
\<close>

text \<open>Modelled from the spec: \<open>getBoxSize\<close> of the missing module
  \<open>./box\<close>, "component-wise difference" of the two corners.\<close>

definition getBoxSize :: "Box \<Rightarrow> point2" where
  "getBoxSize box =
     (fst (endPoint box) - fst (startPoint box), snd (endPoint box) - snd (startPoint box))"

text \<open>Modelled from the spec: \<open>getBoxCenter\<close> of the missing module
  \<open>./box\<close>, the component-wise midpoint of the two corners.\<close>

definition getBoxCenter :: "Box \<Rightarrow> point2" where
  "getBoxCenter box =
     ((fst (startPoint box) + fst (endPoint box)) / 2,
      (snd (startPoint box) + snd (endPoint box)) / 2)"

text \<open>Modelled from the spec: \<open>shiftBox\<close> of the missing module \<open>./box\<close>,
  "translate both corners by vector scaled by the box's width/height (vector
  components are fractions of box size, not absolute pixels)".\<close>

definition shiftBox :: "Box \<Rightarrow> point2 \<Rightarrow> Box" where
  "shiftBox box vector =
     (let boxSize = getBoxSize box;
          shiftVector = (fst boxSize * fst vector, snd boxSize * snd vector)
      in box\<lparr>startPoint := (fst (startPoint box) + fst shiftVector,
                              snd (startPoint box) + snd shiftVector),
               endPoint := (fst (endPoint box) + fst shiftVector,
                            snd (endPoint box) + snd shiftVector)\<rparr>)"

text \<open>Modelled from the spec: \<open>squarifyBox\<close> of the missing module
  \<open>./box\<close>, "expand the shorter dimension so width == height, centered on the
  original box's center".\<close>

definition squarifyBox :: "Box \<Rightarrow> Box" where
  "squarifyBox box =
     (let centers = getBoxCenter box;
          boxSize = getBoxSize box;
          halfSize = max (fst boxSize) (snd boxSize) / 2
      in box\<lparr>startPoint := (fst centers - halfSize, snd centers - halfSize),
               endPoint := (fst centers + halfSize, snd centers + halfSize)\<rparr>)"

text \<open>Modelled from the spec: \<open>enlargeBox\<close> of the missing module
  \<open>./box\<close>, "scale box dimensions by factor about its center".\<close>

definition enlargeBox :: "Box \<Rightarrow> real \<Rightarrow> Box" where
  "enlargeBox box factor =
     (let center = getBoxCenter box;
          boxSize = getBoxSize box;
          newHalfSize = (factor * fst boxSize / 2, factor * snd boxSize / 2)
      in box\<lparr>startPoint := (fst center - fst newHalfSize, snd center - snd newHalfSize),
               endPoint := (fst center + fst newHalfSize, snd center + snd newHalfSize)\<rparr>)"

text \<open>\<open>Math.atan2(y, x)\<close> on finite numbers: the angle of the point
  \<open>(x, y)\<close>, in \<open>(-\<pi>, \<pi>]\<close>, and \<open>0\<close> at the origin.\<close>

definition Math_atan2 :: "real \<Rightarrow> real \<Rightarrow> real" where
  "Math_atan2 y x =
     (if 0 < x then arctan (y / x)
      else if x < 0 then (if 0 \<le> y then arctan (y / x) + pi else arctan (y / x) - pi)
      else if 0 < y then pi / 2
      else if y < 0 then - (pi / 2)
      else 0)"

text \<open>Modelled from the spec: \<open>computeRotation\<close> of the missing module
  \<open>./util\<close>, "\<open>\<pi>/2 - atan2(-(B.y - A.y), B.x - A.x)\<close>".\<close>

definition computeRotation :: "point2 \<Rightarrow> point2 \<Rightarrow> real" where
  "computeRotation point1 point2 =
     pi / 2 - Math_atan2 (- (snd point2 - snd point1)) (fst point2 - fst point1)"

text \<open>Modelled from the spec: \<open>dot\<close> of the missing module \<open>./util\<close>, the
  dot product, here of two vectors of three numbers.\<close>

definition dot :: "point3 \<Rightarrow> point3 \<Rightarrow> real" where
  "dot v1 v2 =
     (case v1 of (a0, a1, a2) \<Rightarrow> case v2 of (b0, b1, b2) \<Rightarrow> a0 * b0 + a1 * b1 + a2 * b2)"

text \<open>Modelled from the spec: \<open>buildRotationMatrix\<close> of the missing module
  \<open>./util\<close>, "the affine matrix rotating around pivot by angle": a point
  \<open>p\<close> goes to \<open>R (p - pivot) + pivot\<close>.\<close>

definition buildRotationMatrix :: "real \<Rightarrow> point2 \<Rightarrow> matrix" where
  "buildRotationMatrix rotation center =
     (let cosA = cos rotation; sinA = sin rotation
      in ((cosA, - sinA, fst center - (cosA * fst center - sinA * snd center)),
          (sinA, cosA, snd center - (sinA * fst center + cosA * snd center))))"

text \<open>Modelled from the spec: \<open>rotatePoint\<close> of the missing module
  \<open>./util\<close>, "dot-product of the point with each row of the matrix, producing a
  2D point".\<close>

definition rotatePoint :: "point3 \<Rightarrow> matrix \<Rightarrow> point2" where
  "rotatePoint homogeneousCoordinate rotationMatrix =
     (dot homogeneousCoordinate (fst rotationMatrix),
      dot homogeneousCoordinate (snd rotationMatrix))"

text \<open>Modelled from the spec: \<open>invertTransformMatrix\<close> of the missing module
  \<open>./util\<close>, the "algebraic inverse of the affine rotation": the transposed
  rotation, and the translation it maps back to the origin.\<close>

definition invertTransformMatrix :: "matrix \<Rightarrow> matrix" where
  "invertTransformMatrix m =
     (case m of ((r00, r01, t0), (r10, r11, t1)) \<Rightarrow>
        ((r00, r10, - (r00 * t0 + r10 * t1)),
         (r01, r11, - (r01 * t0 + r11 * t1))))"

subsection \<open>Boxes from landmarks\<close>

text \<open>
  \<open>Math.min(...xs)\<close> and \<open>Math.max(...xs)\<close>. With no argument JavaScript
  answers \<open>Infinity\<close> and \<open>-Infinity\<close>, which are not real numbers: the two
  functions have no equation for the empty list, and every use below is on a list
  that is not empty (\<open>getBoxForHandLandmarks\<close> throws on fewer than eighteen
  landmarks, and \<open>estimateHand\<close> has thrown before it reaches
  \<open>getBoxForPalmLandmarks\<close> with fewer than three).
\<close>

fun Math_min :: "real list \<Rightarrow> real" where
  "Math_min (x # xs) = fold min xs x"

fun Math_max :: "real list \<Rightarrow> real" where
  "Math_max (x # xs) = fold max xs x"

text \<open>\<open>calculateLandmarksBoundingBox\<close> reads the components \<open>d[0]\<close> and
  \<open>d[1]\<close> of every landmark; a caller with three-dimensional landmarks passes
  these two.\<close>

definition calculateLandmarksBoundingBox :: "point2 list \<Rightarrow> Box" where
  "calculateLandmarksBoundingBox landmarks0 =
     (let xs = map fst landmarks0;
          ys = map snd landmarks0
      in \<lparr> startPoint = (Math_min xs, Math_min ys),
           endPoint = (Math_max xs, Math_max ys),
           palmLandmarks = None \<rparr>)"

definition getBoxForPalmLandmarks :: "point2 list \<Rightarrow> matrix \<Rightarrow> Box" where
  "getBoxForPalmLandmarks palmLandmarks0 rotationMatrix =
     (let rotatedPalmLandmarks =
            map (\<lambda>coord. rotatePoint (fst coord, snd coord, 1) rotationMatrix) palmLandmarks0;
          boxAroundPalm = calculateLandmarksBoundingBox rotatedPalmLandmarks
      in enlargeBox (squarifyBox (shiftBox boxAroundPalm PALM_BOX_SHIFT_VECTOR))
           PALM_BOX_ENLARGE_FACTOR)"

text \<open>\<open>coord.slice(0, 2)\<close> of a landmark \<open>[x, y, z]\<close>.\<close>

definition slice2 :: "point3 \<Rightarrow> point2" where
  "slice2 coord = (case coord of (x, y, z) \<Rightarrow> (x, y))"

text \<open>
  \<open>getBoxForHandLandmarks(landmarks)\<close>. The loop reads
  \<open>landmarks[PALM_LANDMARK_IDS[i]]\<close> for each of the seven indices, the largest
  being 17; on a shorter array one of them is \<open>undefined\<close> and \<open>.slice\<close> throws
  a TypeError. Nothing before the loop throws or has an effect, so the length is
  tested first here.
\<close>

definition getBoxForHandLandmarks :: "point3 list \<Rightarrow> error + Box" where
  "getBoxForHandLandmarks landmarks0 =
     (if \<exists>i \<in> set PALM_LANDMARK_IDS. length landmarks0 \<le> i then Inl TypeError
      else
        (let boundingBox = calculateLandmarksBoundingBox (map slice2 landmarks0);
             boxAroundHand =
               enlargeBox (squarifyBox (shiftBox boundingBox HAND_BOX_SHIFT_VECTOR))
                 HAND_BOX_ENLARGE_FACTOR;
             palmLandmarks0 = map (\<lambda>i. slice2 (landmarks0 ! i)) PALM_LANDMARK_IDS
         in Inr (boxAroundHand\<lparr>palmLandmarks := Some palmLandmarks0\<rparr>)))"

subsection \<open>From the model's coordinates back to the frame\<close>

definition transformRawCoords ::
  "HandPipeline \<Rightarrow> point3 list \<Rightarrow> Box \<Rightarrow> real \<Rightarrow> matrix \<Rightarrow> point3 list" where
  "transformRawCoords this rawCoords0 box angle rotationMatrix =
     (let boxSize = getBoxSize box;
          scaleFactor = (fst boxSize / meshWidth this, snd boxSize / meshHeight this);
          coordsScaled =
            map (\<lambda>(c0, c1, c2).
                   (fst scaleFactor * (c0 - meshWidth this / 2),
                    snd scaleFactor * (c1 - meshHeight this / 2), c2)) rawCoords0;
          coordsRotationMatrix = buildRotationMatrix angle (0, 0);
          coordsRotated =
            map (\<lambda>coord.
                   (let rotated = rotatePoint coord coordsRotationMatrix
                    in (fst rotated, snd rotated, snd (snd coord)))) coordsScaled;
          inverseRotationMatrix = invertTransformMatrix rotationMatrix;
          boxCenter = (fst (getBoxCenter box), snd (getBoxCenter box), 1);
          originalBoxCenter =
            (dot boxCenter (fst inverseRotationMatrix), dot boxCenter (snd inverseRotationMatrix))
      in map (\<lambda>(c0, c1, c2). (c0 + fst originalBoxCenter, c1 + snd originalBoxCenter, c2))
           coordsRotated)"

subsection \<open>One frame\<close>

text \<open>
  Lines 172 to 227 of \<open>estimateHand\<close>, entered with the value of
  \<open>useFreshBox\<close>. \<open>currentBox\<close> is \<open>regionsOfInterest[0]\<close>; reading
  \<open>palmLandmarks\<close> of \<open>undefined\<close>, or an element of a missing
  \<open>palmLandmarks\<close>, throws. With fewer than three palm landmarks the argument
  \<open>palmLandmarks[2]\<close> of \<open>computeRotation\<close> is \<open>undefined\<close>, whose
  component that function reads. A throw leaves the fields as they are at that point.
\<close>

definition estimateHand_landmarks ::
  "bool \<Rightarrow> HandPipeline \<Rightarrow> image \<Rightarrow> config \<Rightarrow> outcome \<times> HandPipeline" where
  "estimateHand_landmarks useFreshBox this image0 config0 =
     (case regionsOfInterest this of
        [] \<Rightarrow> (Threw TypeError, this)
      | currentBox # others \<Rightarrow>
          (case palmLandmarks currentBox of
             None \<Rightarrow> (Threw TypeError, this)
           | Some palm \<Rightarrow>
               if length palm \<le> PALM_LANDMARKS_INDEX_OF_MIDDLE_FINGER_BASE
               then (Threw TypeError, this)
               else
                 (let angle = computeRotation (palm ! PALM_LANDMARKS_INDEX_OF_PALM_BASE)
                                (palm ! PALM_LANDMARKS_INDEX_OF_MIDDLE_FINGER_BASE);
                      palmCenter = getBoxCenter currentBox;
                      rotationMatrix = buildRotationMatrix (- angle) palmCenter;
                      box = (if useFreshBox then getBoxForPalmLandmarks palm rotationMatrix
                             else currentBox)
                  in if flagValue image0 < minConfidence config0
                     then (Returned None, this\<lparr>regionsOfInterest := []\<rparr>)
                     else
                       (let coords =
                              transformRawCoords this (rawCoords image0) box angle rotationMatrix
                        in case getBoxForHandLandmarks coords of
                             Inl e \<Rightarrow> (Threw e, this)
                           | Inr nextBoundingBox \<Rightarrow>
                               (Returned (Some
                                  \<lparr> landmarks = coords,
                                    confidence = flagValue image0,
                                    box' = \<lparr> topLeft = startPoint nextBoundingBox,
                                             bottomRight = endPoint nextBoundingBox \<rparr> \<rparr>),
                                updateRegionsOfInterest this nextBoundingBox False)))))"

text \<open>\<open>estimateHand(image, config)\<close>: the outcome and the pipeline after the call.\<close>

definition estimateHand :: "HandPipeline \<Rightarrow> image \<Rightarrow> config \<Rightarrow> outcome \<times> HandPipeline" where
  "estimateHand this image0 config0 =
     (let useFreshBox = shouldUpdateRegionsOfInterest this
      in if useFreshBox then
           (case estimateHandBounds image0 of
              None \<Rightarrow> (Returned None, this\<lparr>regionsOfInterest := []\<rparr>)
            | Some boundingBoxPrediction \<Rightarrow>
                estimateHand_landmarks useFreshBox
                  ((updateRegionsOfInterest this boundingBoxPrediction True)
                     \<lparr>runsWithoutHandDetector := 0\<rparr>) image0 config0)
         else
           estimateHand_landmarks useFreshBox
             (this\<lparr>runsWithoutHandDetector := Suc (runsWithoutHandDetector this)\<rparr>)
             image0 config0)"

subsection \<open>The states a pipeline goes through\<close>

text \<open>
  What the pipeline expects of the palm detector: a box it reports carries its palm
  landmarks.
\<close>

definition detectorContract :: "image \<Rightarrow> bool" where
  "detectorContract image0 =
     (case estimateHandBounds image0 of
        None \<Rightarrow> True
      | Some boundingBoxPrediction \<Rightarrow> palmLandmarks boundingBoxPrediction \<noteq> None)"

text \<open>
  The states of a pipeline: the one the constructor builds, and the one after each
  call of \<open>estimateHand\<close>, whatever its outcome, on any frame and configuration.
\<close>

inductive reachable :: "HandPipeline \<Rightarrow> bool" where
  constructed: "reachable (new_HandPipeline mw mh mcc dc)"
| called: "reachable this \<Longrightarrow> reachable (snd (estimateHand this image0 config0))"

text \<open>
  The states among them that a pipeline goes through when, on every frame, the palm
  detector keeps to \<open>detectorContract\<close>.
\<close>

inductive reachable_detectorContract :: "HandPipeline \<Rightarrow> bool" where
  constructed_dc: "reachable_detectorContract (new_HandPipeline mw mh mcc dc)"
| called_dc: "reachable_detectorContract this \<Longrightarrow> detectorContract image0 \<Longrightarrow>
              reachable_detectorContract (snd (estimateHand this image0 config0))"

subsection \<open>Predicates and a second reading of the overlap\<close>

text \<open>
  The intersection over union with the area of the previous box taken from that
  box's own corners: the formula of \<open>iou\<close> with \<open>previousBoxStartY\<close> in the last
  factor of \<open>previousBoxArea\<close>. It is what the description of the tracker asks
  for ("use each box's own start/end consistently when computing its area"), and is
  here to be compared with \<open>iou\<close>.
\<close>

definition iou_by_own_corners :: "Box \<Rightarrow> Box \<Rightarrow> number" where
  "iou_by_own_corners box previousBox =
     (let (boxStartX, boxStartY) = startPoint box;
          (boxEndX, boxEndY) = endPoint box;
          (previousBoxStartX, previousBoxStartY) = startPoint previousBox;
          (previousBoxEndX, previousBoxEndY) = endPoint previousBox;
          xStartMax = max boxStartX previousBoxStartX;
          yStartMax = max boxStartY previousBoxStartY;
          xEndMin = min boxEndX previousBoxEndX;
          yEndMin = min boxEndY previousBoxEndY;
          intersection = (xEndMin - xStartMax) * (yEndMin - yStartMax);
          boxArea = (boxEndX - boxStartX) * (boxEndY - boxStartY);
          previousBoxArea =
            (previousBoxEndX - previousBoxStartX) * (previousBoxEndY - previousBoxStartY)
      in js_divide intersection (boxArea + previousBoxArea - intersection))"

text \<open>A box whose palm landmarks let \<open>estimateHand\<close> compute the alignment angle:
  it has the elements 0 and 2.\<close>

definition palmReady :: "Box \<Rightarrow> bool" where
  "palmReady box =
     (case palmLandmarks box of
        None \<Rightarrow> False
      | Some palm \<Rightarrow> PALM_LANDMARKS_INDEX_OF_MIDDLE_FINGER_BASE < length palm)"

text \<open>At most one tracked region, and each one with its palm landmarks.\<close>

definition tracked :: "HandPipeline \<Rightarrow> bool" where
  "tracked this =
     (length (regionsOfInterest this) \<le> 1
      \<and> (\<forall>b \<in> set (regionsOfInterest this). palmLandmarks b \<noteq> None))"

subsection \<open>A worked frame\<close>

text \<open>
  A pipeline for a 120 by 120 landmark model, a palm box as the detector reports it
  (palm base straight below the base of the middle finger, so the alignment angle is
  zero), and the twenty-one key points of one frame; \<open>sampleCrop\<close>,
  \<open>sampleCoords\<close> and \<open>sampleHandBox\<close> are what the pipeline computes from them.
\<close>

definition samplePipeline :: HandPipeline where
  "samplePipeline = new_HandPipeline 120 120 5 0.8"

definition samplePalm :: Box where
  "samplePalm =
     \<lparr> startPoint = (100, 100), endPoint = (180, 180),
       palmLandmarks = Some [(140, 180), (120, 120), (140, 100), (160, 120), (180, 140),
                             (100, 150), (110, 130)] \<rparr>"

definition sampleLandmarks :: "point3 list" where
  "sampleLandmarks =
     [(30, 90, 0), (20, 80, 1), (10, 70, 2), (12, 50, 3), (14, 40, 4), (25, 50, 5),
      (24, 30, 6), (23, 20, 7), (22, 10, 8), (30, 48, 9), (30, 28, 10), (30, 18, 11),
      (30, 12, 12), (36, 50, 13), (37, 32, 14), (38, 24, 15), (39, 16, 16), (42, 55, 17),
      (45, 45, 18), (48, 38, 19), (50, 30, 20)]"

definition sampleImage :: image where
  "sampleImage =
     \<lparr> estimateHandBounds = Some samplePalm, flagValue = 0.9, rawCoords = sampleLandmarks \<rparr>"

definition sampleConfig :: config where
  "sampleConfig = \<lparr> minConfidence = 0.5 \<rparr>"

definition sampleCrop :: Box where
  "sampleCrop = \<lparr> startPoint = (20, - 12), endPoint = (260, 228), palmLandmarks = None \<rparr>"

definition sampleCoords :: "point3 list" where
  "sampleCoords = map (\<lambda>(x, y, z). (2 * x + 20, 2 * y - 12, z)) sampleLandmarks"

definition sampleHandBox :: Box where
  "sampleHandBox =
     \<lparr> startPoint = (- 52, - 60), endPoint = (212, 204),
       palmLandmarks = Some [(80, 168), (70, 88), (80, 84), (92, 88), (104, 98),
                             (60, 148), (40, 128)] \<rparr>"

text \<open>Plain boxes, without palm landmarks, for the overlap.\<close>

definition plainBox :: "point2 \<Rightarrow> point2 \<Rightarrow> Box" where
  "plainBox s e = \<lparr> startPoint = s, endPoint = e, palmLandmarks = None \<rparr>"

section \<open>The overlap of two boxes\<close>

lemma iou_same_box:
  assumes "fst (startPoint b) < fst (endPoint b)"
    and "snd (startPoint b) < snd (endPoint b)"
  shows "iou b b = Finite 1"
proof -
  obtain sx sy where s: "startPoint b = (sx, sy)"
    by (cases "startPoint b")
  obtain ex ey where e: "endPoint b = (ex, ey)"
    by (cases "endPoint b")
  from assms s e have "sx < ex" and "sy < ey"
    by simp_all
  then show ?thesis
    by (simp add: iou_def s e js_divide_def Let_def)
qed

lemma iou_own_corners_same_startY:
  "snd (startPoint box) = snd (startPoint previousBox) \<Longrightarrow>
     iou box previousBox = iou_by_own_corners box previousBox"
  by (simp add: iou_def iou_by_own_corners_def case_prod_beta)

lemma updateRegionsOfInterest_fields:
  "runsWithoutHandDetector (updateRegionsOfInterest this box f) = runsWithoutHandDetector this"
  "maxHandsNumber (updateRegionsOfInterest this box f) = maxHandsNumber this"
  "maxContinuousChecks (updateRegionsOfInterest this box f) = maxContinuousChecks this"
  by (simp_all add: updateRegionsOfInterest_def split: list.splits)

text \<open>
  Claim C1. The overlap that \<open>updateRegionsOfInterest\<close> computes is the
  intersection over the union with each box's area taken from its own corners. The
  code instead takes the height of the previous box from the new box's start: for
  the new box (0,3)-(10,10) over the previous box (0,0)-(10,10) it computes 1, where
  the areas from the boxes' own corners give 7/10, and so keeps the previous box
  where the threshold 0.8 asks for the new one.
\<close>

theorem iou_previous_area_from_new_startY:
  "iou (plainBox (0, 3) (10, 10)) (plainBox (0, 0) (10, 10)) = Finite 1
   \<and> iou_by_own_corners (plainBox (0, 3) (10, 10)) (plainBox (0, 0) (10, 10)) = Finite (7 / 10)
   \<and> regionsOfInterest
        (updateRegionsOfInterest (samplePipeline\<lparr>regionsOfInterest := [plainBox (0, 0) (10, 10)]\<rparr>)
           (plainBox (0, 3) (10, 10)) False)
      = [plainBox (0, 0) (10, 10)]"
  by (simp add: iou_def iou_by_own_corners_def plainBox_def js_divide_def
      updateRegionsOfInterest_def UPDATE_REGION_OF_INTEREST_IOU_THRESHOLD_def)

text \<open>
  Claim C2. The overlap of a box of positive area with itself is 1 (lemma
  \<open>iou_same_box\<close>), and the overlap of two disjoint boxes is 0. The code does not
  clip the extents of the intersection at zero: for the unit box (0,0)-(1,1) and the
  box (2,0)-(3,1) to its right it computes -1/3, and for the box (2,2)-(9/4,9/4),
  apart from the unit box in both axes, it computes 16/9 and keeps that box as the
  tracked region. The height taken for the previous box plays no part in this: with
  each area from the box's own corners the two values are -1/3 and 16.
\<close>

theorem iou_disjoint_boxes_not_zero:
  "fst (endPoint (plainBox (0, 0) (1, 1))) < fst (startPoint (plainBox (2, 0) (3, 1)))
   \<and> iou (plainBox (0, 0) (1, 1)) (plainBox (2, 0) (3, 1)) = Finite (- 1 / 3)
   \<and> iou_by_own_corners (plainBox (0, 0) (1, 1)) (plainBox (2, 0) (3, 1)) = Finite (- 1 / 3)
   \<and> iou (plainBox (0, 0) (1, 1)) (plainBox (2, 2) (9 / 4, 9 / 4)) = Finite (16 / 9)
   \<and> iou_by_own_corners (plainBox (0, 0) (1, 1)) (plainBox (2, 2) (9 / 4, 9 / 4)) = Finite 16
   \<and> regionsOfInterest
        (updateRegionsOfInterest
           (samplePipeline\<lparr>regionsOfInterest := [plainBox (2, 2) (9 / 4, 9 / 4)]\<rparr>)
           (plainBox (0, 0) (1, 1)) False)
      = [plainBox (2, 2) (9 / 4, 9 / 4)]"
  by (simp add: iou_def iou_by_own_corners_def plainBox_def js_divide_def
      updateRegionsOfInterest_def UPDATE_REGION_OF_INTEREST_IOU_THRESHOLD_def)

section \<open>The region tracker\<close>

text \<open>
  Claim C3. In a pipeline (where \<open>maxHandsNumber\<close> is 1),
  \<open>shouldUpdateRegionsOfInterest\<close> is true if and only if the number of tracked
  regions is not 1 or the count of frames without the detector has reached
  \<open>maxContinuousChecks\<close>.
\<close>

theorem shouldUpdateRegionsOfInterest_iff:
  "maxHandsNumber this = 1 \<Longrightarrow>
     shouldUpdateRegionsOfInterest this =
       (length (regionsOfInterest this) \<noteq> 1
        \<or> maxContinuousChecks this \<le> real (runsWithoutHandDetector this))"
  by (simp add: shouldUpdateRegionsOfInterest_def)

theorem shouldUpdateRegionsOfInterest_iff_witness:
  "maxHandsNumber samplePipeline = 1
   \<and> shouldUpdateRegionsOfInterest samplePipeline
   \<and> maxHandsNumber
        (samplePipeline\<lparr>regionsOfInterest := [samplePalm], runsWithoutHandDetector := 4\<rparr>) = 1
   \<and> \<not> shouldUpdateRegionsOfInterest
        (samplePipeline\<lparr>regionsOfInterest := [samplePalm], runsWithoutHandDetector := 4\<rparr>)
   \<and> shouldUpdateRegionsOfInterest
        (samplePipeline\<lparr>regionsOfInterest := [samplePalm], runsWithoutHandDetector := 5\<rparr>)"
  using shouldUpdateRegionsOfInterest_iff [of samplePipeline]
    shouldUpdateRegionsOfInterest_iff
      [of "samplePipeline\<lparr>regionsOfInterest := [samplePalm], runsWithoutHandDetector := 4\<rparr>"]
    shouldUpdateRegionsOfInterest_iff
      [of "samplePipeline\<lparr>regionsOfInterest := [samplePalm], runsWithoutHandDetector := 5\<rparr>"]
  by (simp add: samplePipeline_def new_HandPipeline_def)

text \<open>
  Claim C4. Without \<open>forceUpdate\<close>: with no tracked region the new box is
  installed (the overlap counts as zero); with a tracked region whose computed
  overlap with the new box exceeds 0.8 the pipeline is left as it is; otherwise the
  new box takes the place of the tracked region.
\<close>

theorem updateRegionsOfInterest_unforced:
  "(regionsOfInterest this = [] \<longrightarrow>
      updateRegionsOfInterest this box False = this\<lparr>regionsOfInterest := [box]\<rparr>)
   \<and> (regionsOfInterest this = previousBox # others
        \<and> js_greater (iou box previousBox) 0.8 \<longrightarrow>
      updateRegionsOfInterest this box False = this)
   \<and> (regionsOfInterest this = previousBox # others
        \<and> \<not> js_greater (iou box previousBox) 0.8 \<longrightarrow>
      updateRegionsOfInterest this box False = this\<lparr>regionsOfInterest := box # others\<rparr>)"
  by (simp add: updateRegionsOfInterest_def UPDATE_REGION_OF_INTEREST_IOU_THRESHOLD_def)

theorem updateRegionsOfInterest_unforced_witness:
  "regionsOfInterest samplePipeline = []
   \<and> updateRegionsOfInterest samplePipeline samplePalm False =
       samplePipeline\<lparr>regionsOfInterest := [samplePalm]\<rparr>
   \<and> js_greater (iou (plainBox (1, 0) (10, 10)) (plainBox (0, 0) (10, 10))) 0.8
   \<and> updateRegionsOfInterest (samplePipeline\<lparr>regionsOfInterest := [plainBox (0, 0) (10, 10)]\<rparr>)
         (plainBox (1, 0) (10, 10)) False =
       samplePipeline\<lparr>regionsOfInterest := [plainBox (0, 0) (10, 10)]\<rparr>
   \<and> \<not> js_greater (iou (plainBox (5, 0) (15, 10)) (plainBox (0, 0) (10, 10))) 0.8
   \<and> updateRegionsOfInterest (samplePipeline\<lparr>regionsOfInterest := [plainBox (0, 0) (10, 10)]\<rparr>)
         (plainBox (5, 0) (15, 10)) False =
       samplePipeline\<lparr>regionsOfInterest := [plainBox (5, 0) (15, 10)]\<rparr>"
proof -
  have empty: "regionsOfInterest samplePipeline = []"
    by (simp add: samplePipeline_def new_HandPipeline_def)
  have near: "js_greater (iou (plainBox (1, 0) (10, 10)) (plainBox (0, 0) (10, 10))) 0.8"
    by (simp add: iou_def plainBox_def js_divide_def)
  have far: "\<not> js_greater (iou (plainBox (5, 0) (15, 10)) (plainBox (0, 0) (10, 10))) 0.8"
    by (simp add: iou_def plainBox_def js_divide_def)
  show ?thesis
    using empty near far
      updateRegionsOfInterest_unforced [of samplePipeline samplePalm]
      updateRegionsOfInterest_unforced
        [of "samplePipeline\<lparr>regionsOfInterest := [plainBox (0, 0) (10, 10)]\<rparr>"
            "plainBox (1, 0) (10, 10)" "plainBox (0, 0) (10, 10)" "[]"]
      updateRegionsOfInterest_unforced
        [of "samplePipeline\<lparr>regionsOfInterest := [plainBox (0, 0) (10, 10)]\<rparr>"
            "plainBox (5, 0) (15, 10)" "plainBox (0, 0) (10, 10)" "[]"]
    by simp
qed

section \<open>One frame\<close>

lemma getBoxForHandLandmarks_palmLandmarks:
  "getBoxForHandLandmarks coords = Inr b \<Longrightarrow> palmLandmarks b \<noteq> None"
  by (auto simp: getBoxForHandLandmarks_def Let_def split: if_splits)

text \<open>What the second part of a call can do: throw and leave the pipeline as it is,
  reject the frame and clear the regions, or accept it and update the regions with a
  box that carries palm landmarks.\<close>

lemma estimateHand_landmarks_cases:
  assumes "estimateHand_landmarks u this image0 config0 = (out, this')"
  shows "(\<exists>e. out = Threw e \<and> this' = this)
       \<or> (out = Returned None \<and> flagValue image0 < minConfidence config0
            \<and> this' = this\<lparr>regionsOfInterest := []\<rparr>)
       \<or> (\<exists>r b. out = Returned (Some r) \<and> \<not> flagValue image0 < minConfidence config0
            \<and> palmLandmarks b \<noteq> None \<and> this' = updateRegionsOfInterest this b False)"
  using assms
  by (auto simp: estimateHand_landmarks_def Let_def
      dest: getBoxForHandLandmarks_palmLandmarks
      split: list.splits option.splits if_splits sum.splits)

lemma estimateHand_landmarks_counter:
  "runsWithoutHandDetector (snd (estimateHand_landmarks u this image0 config0)) =
     runsWithoutHandDetector this"
proof -
  obtain out this' where e: "estimateHand_landmarks u this image0 config0 = (out, this')"
    by (cases "estimateHand_landmarks u this image0 config0")
  from estimateHand_landmarks_cases [OF e] show ?thesis
    by (auto simp: e updateRegionsOfInterest_fields)
qed

lemma estimateHand_landmarks_maxHandsNumber:
  "maxHandsNumber (snd (estimateHand_landmarks u this image0 config0)) = maxHandsNumber this"
proof -
  obtain out this' where e: "estimateHand_landmarks u this image0 config0 = (out, this')"
    by (cases "estimateHand_landmarks u this image0 config0")
  from estimateHand_landmarks_cases [OF e] show ?thesis
    by (auto simp: e updateRegionsOfInterest_fields)
qed

lemma estimateHand_maxHandsNumber:
  "maxHandsNumber (snd (estimateHand this image0 config0)) = maxHandsNumber this"
  by (simp add: estimateHand_def Let_def estimateHand_landmarks_maxHandsNumber
      updateRegionsOfInterest_fields split: option.splits)

text \<open>With a box that is ready and a confidence under the threshold, the second part
  returns \<open>null\<close> and clears the regions.\<close>

lemma estimateHand_landmarks_low:
  assumes "regionsOfInterest this = b # others" and "palmReady b"
    and "flagValue image0 < minConfidence config0"
  shows "estimateHand_landmarks u this image0 config0 =
           (Returned None, this\<lparr>regionsOfInterest := []\<rparr>)"
  using assms
  by (auto simp: estimateHand_landmarks_def palmReady_def Let_def split: option.splits)

subsection \<open>The worked frame, step by step\<close>

lemma sample_should: "shouldUpdateRegionsOfInterest samplePipeline"
  by (simp add: shouldUpdateRegionsOfInterest_def samplePipeline_def new_HandPipeline_def)

lemma sample_angle: "computeRotation (140, 180) (140, 100) = 0"
  by (simp add: computeRotation_def Math_atan2_def)

lemma buildRotationMatrix_zero: "buildRotationMatrix 0 center = ((1, 0, 0), (0, 1, 0))"
  by (simp add: buildRotationMatrix_def)

lemma invertTransformMatrix_identity:
  "invertTransformMatrix ((1, 0, 0), (0, 1, 0)) = ((1, 0, 0), (0, 1, 0))"
  by (simp add: invertTransformMatrix_def)

lemma sample_crop:
  "getBoxForPalmLandmarks
     [(140, 180), (120, 120), (140, 100), (160, 120), (180, 140), (100, 150), (110, 130)]
     ((1, 0, 0), (0, 1, 0)) = sampleCrop"
  by (simp add: getBoxForPalmLandmarks_def rotatePoint_def dot_def sampleCrop_def
      calculateLandmarksBoundingBox_def PALM_BOX_SHIFT_VECTOR_def PALM_BOX_ENLARGE_FACTOR_def
      enlargeBox_def squarifyBox_def shiftBox_def getBoxSize_def getBoxCenter_def Let_def)

lemma sample_coords:
  "meshWidth this = 120 \<Longrightarrow> meshHeight this = 120 \<Longrightarrow>
     transformRawCoords this sampleLandmarks sampleCrop 0 ((1, 0, 0), (0, 1, 0)) = sampleCoords"
  by (simp add: transformRawCoords_def sampleLandmarks_def sampleCrop_def sampleCoords_def
      getBoxSize_def getBoxCenter_def buildRotationMatrix_zero rotatePoint_def dot_def
      invertTransformMatrix_identity Let_def)

lemma sample_hand_box: "getBoxForHandLandmarks sampleCoords = Inr sampleHandBox"
  by (simp add: getBoxForHandLandmarks_def sampleCoords_def sampleLandmarks_def
      sampleHandBox_def PALM_LANDMARK_IDS_def slice2_def calculateLandmarksBoundingBox_def
      HAND_BOX_SHIFT_VECTOR_def HAND_BOX_ENLARGE_FACTOR_def enlargeBox_def squarifyBox_def
      shiftBox_def getBoxSize_def getBoxCenter_def Let_def)

lemma sample_frame:
  "estimateHand samplePipeline sampleImage sampleConfig =
     (Returned (Some \<lparr> landmarks = sampleCoords, confidence = 0.9,
                        box' = \<lparr> topLeft = (- 52, - 60), bottomRight = (212, 204) \<rparr> \<rparr>),
      samplePipeline\<lparr>regionsOfInterest := [sampleHandBox]\<rparr>)"
proof -
  have "estimateHand samplePipeline sampleImage sampleConfig =
          estimateHand_landmarks True (samplePipeline\<lparr>regionsOfInterest := [samplePalm]\<rparr>)
            sampleImage sampleConfig"
    by (simp add: estimateHand_def sample_should sampleImage_def updateRegionsOfInterest_def)
       (simp add: samplePipeline_def new_HandPipeline_def)
  also have "\<dots> =
     (Returned (Some \<lparr> landmarks = sampleCoords, confidence = 0.9,
                        box' = \<lparr> topLeft = (- 52, - 60), bottomRight = (212, 204) \<rparr> \<rparr>),
      samplePipeline\<lparr>regionsOfInterest := [sampleHandBox]\<rparr>)"
    apply (simp add: estimateHand_landmarks_def samplePalm_def sample_angle sample_crop
        PALM_LANDMARKS_INDEX_OF_PALM_BASE_def PALM_LANDMARKS_INDEX_OF_MIDDLE_FINGER_BASE_def
        buildRotationMatrix_zero sampleImage_def sampleConfig_def)
    apply (simp add: sample_coords samplePipeline_def new_HandPipeline_def sample_hand_box)
    apply (simp add: sampleHandBox_def updateRegionsOfInterest_def iou_def js_divide_def
        UPDATE_REGION_OF_INTEREST_IOU_THRESHOLD_def)
    done
  finally show ?thesis .
qed

section \<open>Forced updates and the counter\<close>

text \<open>
  Claim C5, as amended. With \<open>forceUpdate\<close>, \<open>updateRegionsOfInterest\<close> makes
  the regions exactly \<open>[box]\<close>, whatever was tracked, and changes nothing else:
  the counter \<open>runsWithoutHandDetector\<close> keeps its value. It is the caller,
  \<open>estimateHand\<close>, that sets the counter to zero right after the forced update:
  after a call that ran the detector and got a box, the counter is zero.
\<close>

theorem updateRegionsOfInterest_forced:
  "updateRegionsOfInterest this box True = this\<lparr>regionsOfInterest := [box]\<rparr>
   \<and> regionsOfInterest (updateRegionsOfInterest this box True) = [box]
   \<and> runsWithoutHandDetector (updateRegionsOfInterest this box True) =
       runsWithoutHandDetector this
   \<and> (shouldUpdateRegionsOfInterest this \<and> estimateHandBounds image0 = Some box \<longrightarrow>
        runsWithoutHandDetector (snd (estimateHand this image0 config0)) = 0)"
  by (simp add: updateRegionsOfInterest_def estimateHand_def estimateHand_landmarks_counter)

theorem updateRegionsOfInterest_forced_witness:
  "shouldUpdateRegionsOfInterest (samplePipeline\<lparr>runsWithoutHandDetector := 7\<rparr>)
   \<and> estimateHandBounds sampleImage = Some samplePalm
   \<and> runsWithoutHandDetector
        (snd (estimateHand (samplePipeline\<lparr>runsWithoutHandDetector := 7\<rparr>)
                sampleImage sampleConfig)) = 0
   \<and> regionsOfInterest
        (updateRegionsOfInterest (samplePipeline\<lparr>runsWithoutHandDetector := 7\<rparr>)
           samplePalm True) = [samplePalm]"
  using updateRegionsOfInterest_forced
    [of "samplePipeline\<lparr>runsWithoutHandDetector := 7\<rparr>" samplePalm sampleImage sampleConfig]
  by (simp add: shouldUpdateRegionsOfInterest_def samplePipeline_def new_HandPipeline_def
      sampleImage_def)

text \<open>The claim as it was stated fails for the function alone: a forced update of a
  pipeline whose counter is 7 leaves the counter at 7.\<close>

theorem updateRegionsOfInterest_forced_keeps_counter:
  "runsWithoutHandDetector
     (updateRegionsOfInterest (samplePipeline\<lparr>runsWithoutHandDetector := 7\<rparr>) samplePalm True) = 7
   \<and> runsWithoutHandDetector
     (updateRegionsOfInterest (samplePipeline\<lparr>runsWithoutHandDetector := 7\<rparr>) samplePalm True) \<noteq> 0"
  by (simp add: updateRegionsOfInterest_def)

section \<open>Frames without a hand\<close>

text \<open>
  Claim C6. On a frame where the palm detector is asked and answers \<open>null\<close>, or
  where the landmark model is asked (the box the frame works on, the detected one on
  a fresh frame and the tracked one otherwise, has the palm landmarks the alignment
  needs) and its confidence is below \<open>config.minConfidence\<close>, \<open>estimateHand\<close>
  returns \<open>null\<close>, the regions become empty, and
  \<open>shouldUpdateRegionsOfInterest\<close> is true for the next frame.
\<close>

theorem estimateHand_no_hand:
  assumes "maxHandsNumber this = 1"
    and "(shouldUpdateRegionsOfInterest this \<and> estimateHandBounds image0 = None)
       \<or> (flagValue image0 < minConfidence config0
            \<and> shouldUpdateRegionsOfInterest this
            \<and> estimateHandBounds image0 = Some b \<and> palmReady b)
       \<or> (flagValue image0 < minConfidence config0
            \<and> \<not> shouldUpdateRegionsOfInterest this
            \<and> regionsOfInterest this = b # others \<and> palmReady b)"
  shows "fst (estimateHand this image0 config0) = Returned None
       \<and> regionsOfInterest (snd (estimateHand this image0 config0)) = []
       \<and> shouldUpdateRegionsOfInterest (snd (estimateHand this image0 config0))"
proof -
  have m: "maxHandsNumber (snd (estimateHand this image0 config0)) = 1"
    using assms(1) by (simp add: estimateHand_maxHandsNumber)
  have "fst (estimateHand this image0 config0) = Returned None
        \<and> regionsOfInterest (snd (estimateHand this image0 config0)) = []"
    using assms(2)
  proof (elim disjE conjE)
    assume "shouldUpdateRegionsOfInterest this" and "estimateHandBounds image0 = None"
    then show ?thesis
      by (simp add: estimateHand_def)
  next
    assume low: "flagValue image0 < minConfidence config0"
      and fresh: "shouldUpdateRegionsOfInterest this"
      and found: "estimateHandBounds image0 = Some b" and ready: "palmReady b"
    have "regionsOfInterest ((updateRegionsOfInterest this b True)\<lparr>runsWithoutHandDetector := 0\<rparr>)
            = b # []"
      by (simp add: updateRegionsOfInterest_def)
    from estimateHand_landmarks_low [OF this ready low] fresh found show ?thesis
      by (simp add: estimateHand_def)
  next
    assume low: "flagValue image0 < minConfidence config0"
      and kept: "\<not> shouldUpdateRegionsOfInterest this"
      and roi: "regionsOfInterest this = b # others" and ready: "palmReady b"
    from roi have
      "regionsOfInterest (this\<lparr>runsWithoutHandDetector := Suc (runsWithoutHandDetector this)\<rparr>)
         = b # others"
      by simp
    from estimateHand_landmarks_low [OF this ready low] kept show ?thesis
      by (simp add: estimateHand_def)
  qed
  with m show ?thesis
    by (simp add: shouldUpdateRegionsOfInterest_def)
qed

theorem estimateHand_no_hand_witness:
  "maxHandsNumber samplePipeline = 1
   \<and> shouldUpdateRegionsOfInterest samplePipeline
   \<and> estimateHandBounds (sampleImage\<lparr>estimateHandBounds := None\<rparr>) = None
   \<and> estimateHand samplePipeline (sampleImage\<lparr>estimateHandBounds := None\<rparr>) sampleConfig =
       (Returned None, samplePipeline)
   \<and> flagValue (sampleImage\<lparr>flagValue := 0.1\<rparr>) < minConfidence sampleConfig
   \<and> palmReady samplePalm
   \<and> fst (estimateHand samplePipeline (sampleImage\<lparr>flagValue := 0.1\<rparr>) sampleConfig) =
       Returned None
   \<and> regionsOfInterest
        (snd (estimateHand samplePipeline (sampleImage\<lparr>flagValue := 0.1\<rparr>) sampleConfig)) = []
   \<and> \<not> shouldUpdateRegionsOfInterest (samplePipeline\<lparr>regionsOfInterest := [sampleHandBox]\<rparr>)
   \<and> palmReady sampleHandBox
   \<and> fst (estimateHand (samplePipeline\<lparr>regionsOfInterest := [sampleHandBox]\<rparr>)
            (sampleImage\<lparr>flagValue := 0.1\<rparr>) sampleConfig) = Returned None
   \<and> regionsOfInterest
        (snd (estimateHand (samplePipeline\<lparr>regionsOfInterest := [sampleHandBox]\<rparr>)
                (sampleImage\<lparr>flagValue := 0.1\<rparr>) sampleConfig)) = []
   \<and> shouldUpdateRegionsOfInterest
        (snd (estimateHand (samplePipeline\<lparr>regionsOfInterest := [sampleHandBox]\<rparr>)
                (sampleImage\<lparr>flagValue := 0.1\<rparr>) sampleConfig))"
proof -
  have one: "maxHandsNumber samplePipeline = 1"
    "maxHandsNumber (samplePipeline\<lparr>regionsOfInterest := [sampleHandBox]\<rparr>) = 1"
    by (simp_all add: samplePipeline_def new_HandPipeline_def)
  have kept: "\<not> shouldUpdateRegionsOfInterest (samplePipeline\<lparr>regionsOfInterest := [sampleHandBox]\<rparr>)"
    by (simp add: shouldUpdateRegionsOfInterest_def samplePipeline_def new_HandPipeline_def)
  have ready: "palmReady samplePalm" "palmReady sampleHandBox"
    by (simp_all add: palmReady_def samplePalm_def sampleHandBox_def
        PALM_LANDMARKS_INDEX_OF_MIDDLE_FINGER_BASE_def)
  have low: "flagValue (sampleImage\<lparr>flagValue := 0.1\<rparr>) < minConfidence sampleConfig"
    by (simp add: sampleConfig_def)
  have found: "estimateHandBounds (sampleImage\<lparr>flagValue := 0.1\<rparr>) = Some samplePalm"
    by (simp add: sampleImage_def)
  have none: "estimateHandBounds (sampleImage\<lparr>estimateHandBounds := None\<rparr>) = None"
    by simp
  have empty: "samplePipeline\<lparr>regionsOfInterest := []\<rparr> = samplePipeline"
    by (simp add: samplePipeline_def new_HandPipeline_def)
  have roi: "regionsOfInterest (samplePipeline\<lparr>regionsOfInterest := [sampleHandBox]\<rparr>) =
               sampleHandBox # []"
    by simp
  have a: "estimateHand samplePipeline (sampleImage\<lparr>estimateHandBounds := None\<rparr>) sampleConfig =
             (Returned None, samplePipeline)"
    using estimateHand_no_hand
      [of samplePipeline "sampleImage\<lparr>estimateHandBounds := None\<rparr>" sampleConfig, OF one(1)]
      sample_should none empty
    by (simp add: estimateHand_def)
  show ?thesis
    using one(1) sample_should none a low ready kept
      estimateHand_no_hand
        [of samplePipeline "sampleImage\<lparr>flagValue := 0.1\<rparr>" sampleConfig samplePalm,
         OF one(1)]
      estimateHand_no_hand
        [of "samplePipeline\<lparr>regionsOfInterest := [sampleHandBox]\<rparr>"
            "sampleImage\<lparr>flagValue := 0.1\<rparr>" sampleConfig sampleHandBox "[]", OF one(2)]
      found roi
    by simp
qed

section \<open>The states a pipeline goes through\<close>

lemma tracked_update:
  "tracked this \<Longrightarrow> palmLandmarks b \<noteq> None \<Longrightarrow> tracked (updateRegionsOfInterest this b f)"
  by (auto simp: tracked_def updateRegionsOfInterest_def split: list.splits)

lemma tracked_landmarks:
  assumes "tracked this"
  shows "tracked (snd (estimateHand_landmarks u this image0 config0))"
proof -
  obtain out this' where e: "estimateHand_landmarks u this image0 config0 = (out, this')"
    by (cases "estimateHand_landmarks u this image0 config0")
  from estimateHand_landmarks_cases [OF e] assms show ?thesis
    by (auto simp: e tracked_update) (simp add: tracked_def)
qed

lemma tracked_estimateHand:
  assumes "tracked this" and "detectorContract image0"
  shows "tracked (snd (estimateHand this image0 config0))"
proof (cases "shouldUpdateRegionsOfInterest this")
  case False
  have "tracked (this\<lparr>runsWithoutHandDetector := Suc (runsWithoutHandDetector this)\<rparr>)"
    using assms(1) by (simp add: tracked_def)
  with False show ?thesis
    by (simp add: estimateHand_def tracked_landmarks)
next
  case True
  show ?thesis
  proof (cases "estimateHandBounds image0")
    case None
    with True show ?thesis
      by (simp add: estimateHand_def tracked_def)
  next
    case (Some b)
    with assms(2) have "palmLandmarks b \<noteq> None"
      by (simp add: detectorContract_def)
    then have "tracked ((updateRegionsOfInterest this b True)\<lparr>runsWithoutHandDetector := 0\<rparr>)"
      by (simp add: tracked_def updateRegionsOfInterest_def)
    with True Some show ?thesis
      by (simp add: estimateHand_def tracked_landmarks)
  qed
qed

lemma length_updateRegionsOfInterest:
  "length (regionsOfInterest this) \<le> 1 \<Longrightarrow>
     length (regionsOfInterest (updateRegionsOfInterest this b f)) \<le> 1"
  by (auto simp: updateRegionsOfInterest_def split: list.splits)

lemma length_landmarks:
  assumes "length (regionsOfInterest this) \<le> 1"
  shows "length (regionsOfInterest (snd (estimateHand_landmarks u this image0 config0))) \<le> 1"
proof -
  obtain out this' where e: "estimateHand_landmarks u this image0 config0 = (out, this')"
    by (cases "estimateHand_landmarks u this image0 config0")
  from estimateHand_landmarks_cases [OF e] assms length_updateRegionsOfInterest [OF assms]
  show ?thesis
    by (auto simp: e)
qed

lemma length_estimateHand:
  assumes "length (regionsOfInterest this) \<le> 1"
  shows "length (regionsOfInterest (snd (estimateHand this image0 config0))) \<le> 1"
proof (cases "shouldUpdateRegionsOfInterest this")
  case False
  have "length (regionsOfInterest
          (this\<lparr>runsWithoutHandDetector := Suc (runsWithoutHandDetector this)\<rparr>)) \<le> 1"
    using assms by simp
  from length_landmarks [OF this] False show ?thesis
    by (simp add: estimateHand_def)
next
  case True
  show ?thesis
  proof (cases "estimateHandBounds image0")
    case None
    with True show ?thesis
      by (simp add: estimateHand_def)
  next
    case (Some b)
    have "length (regionsOfInterest
            ((updateRegionsOfInterest this b True)\<lparr>runsWithoutHandDetector := 0\<rparr>)) \<le> 1"
      by (simp add: updateRegionsOfInterest_def)
    from length_landmarks [OF this] True Some show ?thesis
      by (simp add: estimateHand_def)
  qed
qed

lemma reachable_length: "reachable this \<Longrightarrow> length (regionsOfInterest this) \<le> 1"
proof (induction rule: reachable.induct)
  case (constructed mw mh mcc dc)
  show ?case
    by (simp add: new_HandPipeline_def)
next
  case (called this image0 config0)
  from called.IH show ?case
    by (rule length_estimateHand)
qed

lemma reachable_detectorContract_tracked: "reachable_detectorContract this \<Longrightarrow> tracked this"
proof (induction rule: reachable_detectorContract.induct)
  case (constructed_dc mw mh mcc dc)
  show ?case
    by (simp add: tracked_def new_HandPipeline_def)
next
  case (called_dc this image0 config0)
  then show ?case
    by (simp add: tracked_estimateHand)
qed

lemma reachable_detectorContract_reachable:
  "reachable_detectorContract this \<Longrightarrow> reachable this"
  by (induction rule: reachable_detectorContract.induct) (auto intro: reachable.intros)

text \<open>
  Claim C10, as amended. In every state a pipeline reaches from its constructor through
  any sequence of calls of \<open>estimateHand\<close>, whatever their outcome,
  \<open>regionsOfInterest\<close> holds at most one box. When, on every frame of the
  sequence, a box the palm detector reports carries its palm landmarks, a box that
  \<open>regionsOfInterest\<close> holds has its \<open>palmLandmarks\<close>.
\<close>

theorem reachable_regionsOfInterest:
  "(reachable this \<longrightarrow> length (regionsOfInterest this) \<le> 1)
   \<and> (reachable_detectorContract this \<longrightarrow>
        reachable this
        \<and> length (regionsOfInterest this) \<le> 1
        \<and> (\<forall>b \<in> set (regionsOfInterest this). palmLandmarks b \<noteq> None))"
proof (intro conjI impI)
  assume "reachable this"
  then show "length (regionsOfInterest this) \<le> 1"
    by (rule reachable_length)
next
  assume r: "reachable_detectorContract this"
  then show "reachable this"
    by (rule reachable_detectorContract_reachable)
  from r have "tracked this"
    by (rule reachable_detectorContract_tracked)
  then show "length (regionsOfInterest this) \<le> 1"
    and "\<forall>b \<in> set (regionsOfInterest this). palmLandmarks b \<noteq> None"
    by (simp_all add: tracked_def)
qed

text \<open>A frame on which the palm detector reports a box without palm landmarks:
  the forced update installs the box, and reading its palm landmarks throws.\<close>

lemma bare_frame:
  "estimateHand samplePipeline
     (sampleImage\<lparr>estimateHandBounds := Some (plainBox (100, 100) (180, 180))\<rparr>) sampleConfig =
     (Threw TypeError, samplePipeline\<lparr>regionsOfInterest := [plainBox (100, 100) (180, 180)]\<rparr>)"
proof -
  have "updateRegionsOfInterest samplePipeline (plainBox (100, 100) (180, 180)) True
          \<lparr>runsWithoutHandDetector := 0\<rparr> =
        samplePipeline\<lparr>regionsOfInterest := [plainBox (100, 100) (180, 180)]\<rparr>"
    by (simp add: updateRegionsOfInterest_def samplePipeline_def new_HandPipeline_def)
  then show ?thesis
    by (simp add: estimateHand_def sample_should estimateHand_landmarks_def plainBox_def)
qed

theorem reachable_regionsOfInterest_witness:
  "reachable (samplePipeline\<lparr>regionsOfInterest := [plainBox (100, 100) (180, 180)]\<rparr>)
   \<and> length (regionsOfInterest
        (samplePipeline\<lparr>regionsOfInterest := [plainBox (100, 100) (180, 180)]\<rparr>)) = 1
   \<and> reachable_detectorContract (samplePipeline\<lparr>regionsOfInterest := [sampleHandBox]\<rparr>)
   \<and> reachable (samplePipeline\<lparr>regionsOfInterest := [sampleHandBox]\<rparr>)
   \<and> length (regionsOfInterest (samplePipeline\<lparr>regionsOfInterest := [sampleHandBox]\<rparr>)) = 1
   \<and> palmLandmarks sampleHandBox =
       Some [(80, 168), (70, 88), (80, 84), (92, 88), (104, 98), (60, 148), (40, 128)]"
proof -
  have "reachable samplePipeline"
    unfolding samplePipeline_def by (rule reachable.constructed)
  then have "reachable (snd (estimateHand samplePipeline
      (sampleImage\<lparr>estimateHandBounds := Some (plainBox (100, 100) (180, 180))\<rparr>) sampleConfig))"
    by (rule reachable.called)
  then have bare: "reachable (samplePipeline\<lparr>regionsOfInterest := [plainBox (100, 100) (180, 180)]\<rparr>)"
    by (simp add: bare_frame)
  have "reachable_detectorContract samplePipeline"
    unfolding samplePipeline_def by (rule reachable_detectorContract.constructed_dc)
  moreover have "detectorContract sampleImage"
    by (simp add: detectorContract_def sampleImage_def samplePalm_def)
  ultimately have
    "reachable_detectorContract (snd (estimateHand samplePipeline sampleImage sampleConfig))"
    by (rule reachable_detectorContract.called_dc)
  then have r: "reachable_detectorContract (samplePipeline\<lparr>regionsOfInterest := [sampleHandBox]\<rparr>)"
    by (simp add: sample_frame)
  from reachable_regionsOfInterest
         [of "samplePipeline\<lparr>regionsOfInterest := [plainBox (100, 100) (180, 180)]\<rparr>"]
       reachable_regionsOfInterest [of "samplePipeline\<lparr>regionsOfInterest := [sampleHandBox]\<rparr>"]
       bare r
  show ?thesis
    by (simp add: sampleHandBox_def)
qed

text \<open>The claim as it was stated, for any sequence of calls, fails: when the palm
  detector reports the box (100,100)-(180,180) without palm landmarks on the first
  frame, the call throws a TypeError and leaves that box as the tracked region.\<close>

theorem reachable_box_without_palmLandmarks:
  "reachable (samplePipeline\<lparr>regionsOfInterest := [plainBox (100, 100) (180, 180)]\<rparr>)
   \<and> fst (estimateHand samplePipeline
        (sampleImage\<lparr>estimateHandBounds := Some (plainBox (100, 100) (180, 180))\<rparr>)
        sampleConfig) = Threw TypeError
   \<and> regionsOfInterest
        (samplePipeline\<lparr>regionsOfInterest := [plainBox (100, 100) (180, 180)]\<rparr>) =
       [plainBox (100, 100) (180, 180)]
   \<and> palmLandmarks (plainBox (100, 100) (180, 180)) = None"
proof -
  have "reachable samplePipeline"
    unfolding samplePipeline_def by (rule reachable.constructed)
  then have "reachable (snd (estimateHand samplePipeline
      (sampleImage\<lparr>estimateHandBounds := Some (plainBox (100, 100) (180, 180))\<rparr>) sampleConfig))"
    by (rule reachable.called)
  then have "reachable (samplePipeline\<lparr>regionsOfInterest := [plainBox (100, 100) (180, 180)]\<rparr>)"
    by (simp add: bare_frame)
  moreover have "palmLandmarks (plainBox (100, 100) (180, 180)) = None"
    by (simp add: plainBox_def)
  ultimately show ?thesis
    by (simp add: bare_frame)
qed

section \<open>From the model's coordinates back to the frame\<close>

lemma length_transformRawCoords:
  "length (transformRawCoords this raw box angle rotationMatrix) = length raw"
  by (simp add: transformRawCoords_def Let_def)

text \<open>
  Claim C7. With the alignment angle 0 and the rotation matrix \<open>estimateHand\<close>
  builds for it (about any palm centre), a key point at the centre of the model's
  input, \<open>(meshWidth / 2, meshHeight / 2)\<close>, is mapped by
  \<open>transformRawCoords\<close> to the centre of the crop box, with its depth unchanged.
  (The model's input has a width and a height that are not zero: JavaScript would
  divide by them.)
\<close>

theorem transformRawCoords_center:
  assumes "meshWidth this \<noteq> 0" and "meshHeight this \<noteq> 0" and "angle = 0"
    and "i < length raw" and "raw ! i = (meshWidth this / 2, meshHeight this / 2, z)"
  shows "transformRawCoords this raw box angle (buildRotationMatrix (- angle) palmCenter) ! i =
           (fst (getBoxCenter box), snd (getBoxCenter box), z)"
  using assms
  by (simp add: transformRawCoords_def Let_def buildRotationMatrix_zero
      invertTransformMatrix_identity rotatePoint_def dot_def)

theorem transformRawCoords_center_witness:
  "meshWidth samplePipeline \<noteq> 0 \<and> meshHeight samplePipeline \<noteq> 0
   \<and> [(10, 20, 3), (60, 60, 7)] ! 1 =
       (meshWidth samplePipeline / 2, meshHeight samplePipeline / 2, 7)
   \<and> getBoxCenter sampleCrop = (140, 108)
   \<and> transformRawCoords samplePipeline [(10, 20, 3), (60, 60, 7)] sampleCrop 0
        (buildRotationMatrix (- 0) (140, 140)) ! 1 = (140, 108, 7)"
proof -
  have w: "meshWidth samplePipeline \<noteq> 0" and h: "meshHeight samplePipeline \<noteq> 0"
    by (simp_all add: samplePipeline_def new_HandPipeline_def)
  have p: "[(10, 20, 3), (60, 60, 7)] ! 1 =
             (meshWidth samplePipeline / 2, meshHeight samplePipeline / 2, 7::real)"
    by (simp add: samplePipeline_def new_HandPipeline_def)
  have c: "getBoxCenter sampleCrop = (140, 108)"
    by (simp add: getBoxCenter_def sampleCrop_def)
  from transformRawCoords_center [OF w h refl _ p, of sampleCrop "(140, 140)"] w h p c
  show ?thesis
    by simp
qed

text \<open>
  Claim C8. For all raw key points, crop boxes, angles and rotation matrices, the
  points \<open>transformRawCoords\<close> returns have, one for one, the third component of
  the raw key points.
\<close>

theorem transformRawCoords_depth:
  "map (\<lambda>coord. snd (snd coord)) (transformRawCoords this raw box angle rotationMatrix) =
     map (\<lambda>coord. snd (snd coord)) raw"
  by (simp add: transformRawCoords_def Let_def case_prod_beta comp_def)

section \<open>The box around the hand\<close>

text \<open>
  Claim C9. For twenty-one landmarks whose bounding box is (10,10)-(50,90),
  \<open>getBoxForHandLandmarks\<close> returns that box shifted by the fraction (0, -0.1) of
  its size, made square and enlarged by 1.65, which is the box (-36,-24)-(96,108),
  with the landmarks 0, 5, 9, 13, 17, 1 and 2, in this order and cut to two
  components, as its palm landmarks.
\<close>

theorem getBoxForHandLandmarks_sample_box:
  assumes "length landmarks0 = 21"
    and "calculateLandmarksBoundingBox (map slice2 landmarks0) =
           \<lparr> startPoint = (10, 10), endPoint = (50, 90), palmLandmarks = None \<rparr>"
  shows "getBoxForHandLandmarks landmarks0 =
           Inr ((enlargeBox (squarifyBox (shiftBox
                   \<lparr> startPoint = (10, 10), endPoint = (50, 90), palmLandmarks = None \<rparr>
                   (0, - 0.1))) 1.65)
                \<lparr>palmLandmarks :=
                   Some (map (\<lambda>i. slice2 (landmarks0 ! i)) [0, 5, 9, 13, 17, 1, 2])\<rparr>)
       \<and> getBoxForHandLandmarks landmarks0 =
           Inr \<lparr> startPoint = (- 36, - 24), endPoint = (96, 108),
                 palmLandmarks =
                   Some [slice2 (landmarks0 ! 0), slice2 (landmarks0 ! 5),
                         slice2 (landmarks0 ! 9), slice2 (landmarks0 ! 13),
                         slice2 (landmarks0 ! 17), slice2 (landmarks0 ! 1),
                         slice2 (landmarks0 ! 2)] \<rparr>"
  using assms
  by (simp add: getBoxForHandLandmarks_def PALM_LANDMARK_IDS_def Let_def
      HAND_BOX_SHIFT_VECTOR_def HAND_BOX_ENLARGE_FACTOR_def
      enlargeBox_def squarifyBox_def shiftBox_def getBoxSize_def getBoxCenter_def)

theorem getBoxForHandLandmarks_sample_box_witness:
  "length sampleLandmarks = 21
   \<and> calculateLandmarksBoundingBox (map slice2 sampleLandmarks) =
       \<lparr> startPoint = (10, 10), endPoint = (50, 90), palmLandmarks = None \<rparr>
   \<and> getBoxForHandLandmarks sampleLandmarks =
       Inr \<lparr> startPoint = (- 36, - 24), endPoint = (96, 108),
             palmLandmarks =
               Some [(30, 90), (25, 50), (30, 48), (36, 50), (42, 55), (20, 80), (10, 70)] \<rparr>"
proof -
  have n: "length sampleLandmarks = 21"
    by (simp add: sampleLandmarks_def)
  have b: "calculateLandmarksBoundingBox (map slice2 sampleLandmarks) =
             \<lparr> startPoint = (10, 10), endPoint = (50, 90), palmLandmarks = None \<rparr>"
    by (simp add: calculateLandmarksBoundingBox_def sampleLandmarks_def slice2_def)
  have "slice2 (sampleLandmarks ! 0) = (30, 90)" "slice2 (sampleLandmarks ! 5) = (25, 50)"
    "slice2 (sampleLandmarks ! 9) = (30, 48)" "slice2 (sampleLandmarks ! 13) = (36, 50)"
    "slice2 (sampleLandmarks ! 17) = (42, 55)" "slice2 (sampleLandmarks ! 1) = (20, 80)"
    "slice2 (sampleLandmarks ! 2) = (10, 70)"
    by (simp_all add: sampleLandmarks_def slice2_def)
  with getBoxForHandLandmarks_sample_box [OF n b, THEN conjunct2] n b show ?thesis
    by simp
qed

end
